theory Spec2Isabelle
  imports Complex_Main "HOL-Library.Word"
begin

section \<open>Storage model (app/core/database.py)\<close>

text \<open>
  The SQLAlchemy models of \<^verbatim>\<open>app/core/database.py\<close>, restricted to the columns the
  cart, order and auth services read or write.  \<^verbatim>\<open>Integer\<close> columns are \<open>int\<close>,
  \<^verbatim>\<open>String\<close> columns are \<open>string\<close>, \<^verbatim>\<open>DateTime\<close> columns are a clock reading
  (\<open>nat\<close>).  \<^verbatim>\<open>Float\<close> columns (prices and order amounts) are exact rationals: the
  binary rounding error of IEEE doubles is not part of this model.

  The \<^verbatim>\<open>products\<close> table is only ever read through its primary key, so it is a map
  from \<^verbatim>\<open>Product.id\<close> to the row.  The \<^verbatim>\<open>cart_items\<close>, \<^verbatim>\<open>orders\<close> and \<^verbatim>\<open>users\<close>
  tables are scanned (\<^verbatim>\<open>.all()\<close>, \<^verbatim>\<open>.first()\<close>, \<^verbatim>\<open>.count()\<close>), so they are lists in
  row order.  The association table \<^verbatim>\<open>order_items\<close> is stored with its order: the
  list of product ids of the rows with that \<^verbatim>\<open>order_id\<close>.
\<close>

record product =
  product_name :: string
  price :: rat
  stock_quantity :: int
  product_is_active :: bool

record cart_item =
  cart_item_id :: int
  cart_user_id :: int
  cart_product_id :: int
  cart_quantity :: int

record shipping =
  shipping_name :: string
  shipping_email :: string
  shipping_phone :: string
  shipping_address :: string
  shipping_city :: string
  shipping_state :: string
  shipping_zip :: string
  shipping_country :: string

record order =
  order_id :: int
  order_number :: string
  order_user_id :: int
  total_amount :: rat
  tax_amount :: rat
  shipping_amount :: rat
  discount_amount :: rat
  status :: string
  payment_status :: string
  payment_method :: string
  order_shipping :: shipping
  order_created_at :: nat
  order_updated_at :: nat
  order_products :: "int list"

record user =
  user_ident :: int
  username :: string
  email :: string
  full_name :: "string option"
  hashed_password :: string
  user_is_active :: bool
  user_is_admin :: bool
  user_created_at :: nat
  user_updated_at :: nat

record db =
  users :: "user list"
  products :: "int \<rightharpoonup> product"
  cart_items :: "cart_item list"
  orders :: "order list"

text \<open>
  A session (\<^verbatim>\<open>get_session()\<close>) works on its own view of the database.  Writes go
  to the pending view; \<^verbatim>\<open>commit\<close> makes the pending view the stored one,
  \<^verbatim>\<open>rollback\<close> throws it away, and what remains after \<^verbatim>\<open>close\<close> is the stored
  database.
\<close>

record session =
  persisted :: db
  pending :: db

definition get_session :: "db \<Rightarrow> session" where
  "get_session d = \<lparr>persisted = d, pending = d\<rparr>"

definition commit :: "session \<Rightarrow> session" where
  "commit s = s\<lparr>persisted := pending s\<rparr>"

definition rollback :: "session \<Rightarrow> session" where
  "rollback s = s\<lparr>pending := persisted s\<rparr>"

definition close :: "session \<Rightarrow> db" where
  "close s = persisted s"

text \<open>An integer primary key without explicit value: one more than the largest in use.\<close>

definition next_id :: "int list \<Rightarrow> int" where
  "next_id ids = fold max ids 0 + 1"

text \<open>
  Exceptions the modelled code can raise, and the result dictionaries of the services:
  \<^verbatim>\<open>{"success": True, "message": m, ...payload}\<close>, \<^verbatim>\<open>{"success": False, "message": m}\<close>,
  and the result of an \<^verbatim>\<open>except Exception as e\<close> handler, whose message is a fixed
  prefix followed by \<^verbatim>\<open>str(e)\<close>.
\<close>

datatype exc = NameError string | IntegrityError string | AttributeError string

datatype 'a result = Success string 'a | Failure string | FailureExc string exc

fun is_success :: "'a result \<Rightarrow> bool" where
  "is_success (Success m x) = True"
| "is_success (Failure m) = False"
| "is_success (FailureExc m e) = False"

section \<open>Cart service (app/services/cart_service.py)\<close>

definition active_product :: "db \<Rightarrow> int \<Rightarrow> product option" where
  "active_product d pid =
     (case products d pid of
        None \<Rightarrow> None
      | Some p \<Rightarrow> if product_is_active p then Some p else None)"

definition find_cart_item :: "db \<Rightarrow> int \<Rightarrow> int \<Rightarrow> cart_item option" where
  "find_cart_item d uid pid =
     find (\<lambda>c. cart_user_id c = uid \<and> cart_product_id c = pid) (cart_items d)"

definition set_cart_quantity :: "session \<Rightarrow> int \<Rightarrow> int \<Rightarrow> session" where
  "set_cart_quantity s cid q =
     s\<lparr>pending := (pending s)\<lparr>cart_items :=
          map (\<lambda>c. if cart_item_id c = cid then c\<lparr>cart_quantity := q\<rparr> else c)
            (cart_items (pending s))\<rparr>\<rparr>"

definition add_cart_item :: "session \<Rightarrow> int \<Rightarrow> int \<Rightarrow> int \<Rightarrow> session" where
  "add_cart_item s uid pid q =
     s\<lparr>pending := (pending s)\<lparr>cart_items :=
          cart_items (pending s) @
            [\<lparr>cart_item_id = next_id (map cart_item_id (cart_items (pending s))),
              cart_user_id = uid, cart_product_id = pid, cart_quantity = q\<rparr>]\<rparr>\<rparr>"

definition delete_cart_item :: "session \<Rightarrow> int \<Rightarrow> session" where
  "delete_cart_item s cid =
     s\<lparr>pending := (pending s)\<lparr>cart_items :=
          filter (\<lambda>c. cart_item_id c \<noteq> cid) (cart_items (pending s))\<rparr>\<rparr>"

definition delete_user_cart :: "session \<Rightarrow> int \<Rightarrow> session" where
  "delete_user_cart s uid =
     s\<lparr>pending := (pending s)\<lparr>cart_items :=
          filter (\<lambda>c. cart_user_id c \<noteq> uid) (cart_items (pending s))\<rparr>\<rparr>"

text \<open>\<^verbatim>\<open>add_to_cart(user_id, product_id, quantity)\<close>.  No statement of its \<^verbatim>\<open>try\<close> block
  raises in this model, so the \<^verbatim>\<open>except\<close> handler has no branch.\<close>

definition add_to_cart :: "db \<Rightarrow> int \<Rightarrow> int \<Rightarrow> int \<Rightarrow> unit result \<times> db" where
  "add_to_cart d uid pid quantity =
     (let s = get_session d in
      case active_product (pending s) pid of
        None \<Rightarrow> (Failure ''Product not found'', close s)
      | Some p \<Rightarrow>
          if stock_quantity p < quantity then (Failure ''Insufficient stock'', close s)
          else
            (case find_cart_item (pending s) uid pid of
               Some existing_item \<Rightarrow>
                 (let new_quantity = cart_quantity existing_item + quantity in
                  if stock_quantity p < new_quantity
                  then (Failure ''Insufficient stock'', close s)
                  else (Success ''Item added to cart'' (),
                        close (commit (set_cart_quantity s
                                 (cart_item_id existing_item) new_quantity))))
             | None \<Rightarrow>
                 (Success ''Item added to cart'' (),
                  close (commit (add_cart_item s uid pid quantity)))))"

definition remove_from_cart :: "db \<Rightarrow> int \<Rightarrow> int \<Rightarrow> unit result \<times> db" where
  "remove_from_cart d uid pid =
     (let s = get_session d in
      case find_cart_item (pending s) uid pid of
        None \<Rightarrow> (Failure ''Item not found in cart'', close s)
      | Some c \<Rightarrow>
          (Success ''Item removed from cart'' (),
           close (commit (delete_cart_item s (cart_item_id c)))))"

definition update_cart_item_quantity :: "db \<Rightarrow> int \<Rightarrow> int \<Rightarrow> int \<Rightarrow> unit result \<times> db" where
  "update_cart_item_quantity d uid pid quantity =
     (let s = get_session d in
      if quantity \<le> 0 then remove_from_cart (close s) uid pid
      else
        (case find_cart_item (pending s) uid pid of
           None \<Rightarrow> (Failure ''Item not found in cart'', close s)
         | Some c \<Rightarrow>
             (case products (pending s) pid of
                None \<Rightarrow> (Failure ''Insufficient stock'', close s)
              | Some p \<Rightarrow>
                  if stock_quantity p < quantity
                  then (Failure ''Insufficient stock'', close s)
                  else (Success ''Cart updated'' (),
                        close (commit (set_cart_quantity s (cart_item_id c) quantity))))))"

definition clear_cart :: "db \<Rightarrow> int \<Rightarrow> unit result \<times> db" where
  "clear_cart d uid =
     (let s = get_session d in
      (Success ''Cart cleared'' (), close (commit (delete_user_cart s uid))))"

text \<open>The rows of one (user, product) pair, and all rows of one user.\<close>

definition cart_rows :: "db \<Rightarrow> int \<Rightarrow> int \<Rightarrow> cart_item list" where
  "cart_rows d uid pid =
     filter (\<lambda>c. cart_user_id c = uid \<and> cart_product_id c = pid) (cart_items d)"

definition user_cart :: "db \<Rightarrow> int \<Rightarrow> cart_item list" where
  "user_cart d uid = filter (\<lambda>c. cart_user_id c = uid) (cart_items d)"

text \<open>The total the second stock check of \<^verbatim>\<open>add_to_cart\<close> compares with the stock.\<close>

definition requested_total :: "db \<Rightarrow> int \<Rightarrow> int \<Rightarrow> int \<Rightarrow> int" where
  "requested_total d uid pid quantity =
     (case find_cart_item d uid pid of
        Some existing_item \<Rightarrow> cart_quantity existing_item + quantity
      | None \<Rightarrow> quantity)"

text \<open>
  \<^verbatim>\<open>get_cart_items(user_id)\<close>: one entry per cart row of the user whose product
  exists and is active (the display-only keys \<^verbatim>\<open>product_model\<close>, \<^verbatim>\<open>product_image\<close>
  and \<^verbatim>\<open>added_at\<close> are left out).
\<close>

record cart_line =
  line_id :: int
  line_product_id :: int
  line_product_name :: string
  line_product_price :: rat
  line_quantity :: int
  line_subtotal :: rat
  line_stock_available :: int

primrec cart_lines :: "(int \<rightharpoonup> product) \<Rightarrow> cart_item list \<Rightarrow> cart_line list" where
  "cart_lines ps [] = []"
| "cart_lines ps (item # rest) =
     (case ps (cart_product_id item) of
        None \<Rightarrow> cart_lines ps rest
      | Some p \<Rightarrow>
          if product_is_active p
          then \<lparr>line_id = cart_item_id item,
                line_product_id = cart_product_id item,
                line_product_name = product_name p,
                line_product_price = price p,
                line_quantity = cart_quantity item,
                line_subtotal = price p * of_int (cart_quantity item),
                line_stock_available = stock_quantity p\<rparr> # cart_lines ps rest
          else cart_lines ps rest)"

definition get_cart_items :: "db \<Rightarrow> int \<Rightarrow> cart_line list" where
  "get_cart_items d uid = cart_lines (products d) (user_cart d uid)"

text \<open>Python's \<^verbatim>\<open>round(x, 2)\<close>: to the nearest hundredth, a tie to the even one.\<close>

definition py_round2 :: "rat \<Rightarrow> rat" where
  "py_round2 x =
     (let y = x * 100; f = \<lfloor>y\<rfloor>; r = y - of_int f
      in of_int (if r < 1 / 2 then f else if 1 / 2 < r then f + 1
                 else if even f then f else f + 1) / 100)"

record cart_summary =
  summary_items :: "cart_line list"
  total_items :: int
  subtotal :: rat
  summary_tax_amount :: rat
  summary_shipping_amount :: rat
  summary_total_amount :: rat
  free_shipping_eligible :: bool
  free_shipping_remaining :: rat

definition get_cart_summary :: "db \<Rightarrow> int \<Rightarrow> cart_summary" where
  "get_cart_summary d uid =
     (let lines = get_cart_items d uid;
          n_items = sum_list (map line_quantity lines);
          sub = sum_list (map line_subtotal lines);
          tax_rate = 8 / 100;
          tax = sub * tax_rate;
          ship = (if 100 \<le> sub then 0 else 999 / 100);
          total = sub + tax + ship
      in \<lparr>summary_items = lines,
           total_items = n_items,
           subtotal = py_round2 sub,
           summary_tax_amount = py_round2 tax,
           summary_shipping_amount = py_round2 ship,
           summary_total_amount = py_round2 total,
           free_shipping_eligible = (100 \<le> sub),
           free_shipping_remaining = (if sub < 100 then max 0 (100 - sub) else 0)\<rparr>)"

text \<open>
  \<^verbatim>\<open>validate_cart_for_checkout(user_id)\<close>.  An issue stands for the formatted string
  the code appends: the product id, or the product name with the available and the
  requested quantity.
\<close>

datatype issue = NoLongerAvailable int | InsufficientStock string int int

record validation =
  valid :: bool
  validation_message :: string
  issues :: "issue list"

primrec cart_issues :: "(int \<rightharpoonup> product) \<Rightarrow> cart_item list \<Rightarrow> issue list" where
  "cart_issues ps [] = []"
| "cart_issues ps (item # rest) =
     (case ps (cart_product_id item) of
        None \<Rightarrow> NoLongerAvailable (cart_product_id item) # cart_issues ps rest
      | Some p \<Rightarrow>
          if \<not> product_is_active p
          then NoLongerAvailable (cart_product_id item) # cart_issues ps rest
          else if stock_quantity p < cart_quantity item
          then InsufficientStock (product_name p) (stock_quantity p) (cart_quantity item)
                 # cart_issues ps rest
          else cart_issues ps rest)"

definition validate_cart_for_checkout :: "db \<Rightarrow> int \<Rightarrow> validation" where
  "validate_cart_for_checkout d uid =
     (let rows = user_cart d uid in
      if rows = []
      then \<lparr>valid = False, validation_message = ''Cart is empty'', issues = []\<rparr>
      else
        (let found = cart_issues (products d) rows in
         if found \<noteq> []
         then \<lparr>valid = False, validation_message = ''Cart validation failed'',
               issues = found\<rparr>
         else \<lparr>valid = True, validation_message = ''Cart is valid for checkout'',
               issues = []\<rparr>))"




section \<open>Order service (app/services/order_service.py)\<close>

text \<open>
  What one call takes from its surroundings: the date and the clock reading of
  \<^verbatim>\<open>datetime.now()\<close>, and the bytes \<^verbatim>\<open>secrets.token_hex(n)\<close> draws from the operating
  system (\<open>n\<close> of them).
\<close>

record date =
  year :: nat
  month :: nat
  day :: nat

record environment =
  today :: date
  now :: nat
  random_bytes :: "8 word list"


definition digits :: string where
  "digits = ''0123456789''"

definition hexdigits :: string where
  "hexdigits = ''0123456789abcdef''"


text \<open>A number in decimal, zero-padded to \<open>w\<close> digits (\<^verbatim>\<open>%m\<close>, \<^verbatim>\<open>%d\<close>, and \<^verbatim>\<open>%Y\<close> for a
  four-digit year).\<close>

primrec dec_digits :: "nat \<Rightarrow> nat \<Rightarrow> string" where
  "dec_digits 0 n = []"
| "dec_digits (Suc w) n = dec_digits w (n div 10) @ [digits ! (n mod 10)]"

definition strftime_Ymd :: "date \<Rightarrow> string" where
  "strftime_Ymd t =
     dec_digits 4 (year t) @ dec_digits 2 (month t) @ dec_digits 2 (day t)"

definition hex_byte :: "8 word \<Rightarrow> string" where
  "hex_byte b = [hexdigits ! (unat b div 16), hexdigits ! (unat b mod 16)]"

definition token_hex :: "8 word list \<Rightarrow> string" where
  "token_hex bs = concat (map hex_byte bs)"

definition upper_char :: "char \<Rightarrow> char" where
  "upper_char c =
     (case map_of (zip ''abcdefghijklmnopqrstuvwxyz'' ''ABCDEFGHIJKLMNOPQRSTUVWXYZ'') c of
        Some u \<Rightarrow> u
      | None \<Rightarrow> c)"

definition upper :: "string \<Rightarrow> string" where
  "upper s = map upper_char s"

definition generate_order_number :: "environment \<Rightarrow> string" where
  "generate_order_number env =
     ''CW'' @ strftime_Ymd (today env) @ upper (token_hex (random_bytes env))"


definition get_or :: "(string \<rightharpoonup> string) \<Rightarrow> string \<Rightarrow> string \<Rightarrow> string" where
  "get_or m k dflt = (case m k of Some v \<Rightarrow> v | None \<Rightarrow> dflt)"

text \<open>The \<^verbatim>\<open>Order(...)\<close> object before it is flushed: it has no id yet (0 here) and no
  associated products.\<close>

definition new_order ::
  "environment \<Rightarrow> int \<Rightarrow> cart_summary \<Rightarrow> (string \<rightharpoonup> string) \<Rightarrow> string \<Rightarrow> order" where
  "new_order env uid cart_summary shipping_info pay =
     \<lparr>order_id = 0,
      order_number = generate_order_number env,
      order_user_id = uid,
      total_amount = summary_total_amount cart_summary,
      tax_amount = summary_tax_amount cart_summary,
      shipping_amount = summary_shipping_amount cart_summary,
      discount_amount = 0,
      status = ''pending'',
      payment_status = ''pending'',
      payment_method = pay,
      order_shipping =
        \<lparr>shipping_name = get_or shipping_info ''name'' [],
         shipping_email = get_or shipping_info ''email'' [],
         shipping_phone = get_or shipping_info ''phone'' [],
         shipping_address = get_or shipping_info ''address'' [],
         shipping_city = get_or shipping_info ''city'' [],
         shipping_state = get_or shipping_info ''state'' [],
         shipping_zip = get_or shipping_info ''zip'' [],
         shipping_country = get_or shipping_info ''country'' ''USA''\<rparr>,
      order_created_at = now env,
      order_updated_at = now env,
      order_products = []\<rparr>"

text \<open>
  \<^verbatim>\<open>session.add(order); session.flush()\<close>: the row is inserted in the open transaction
  and receives its id.  \<^verbatim>\<open>order_number\<close> is declared \<^verbatim>\<open>unique=True\<close>, so a number
  already stored makes the insert raise.
\<close>

definition flush_order :: "session \<Rightarrow> order \<Rightarrow> exc + (session \<times> order)" where
  "flush_order s ord =
     (if order_number ord \<in> set (map order_number (orders (pending s)))
      then Inl (IntegrityError ''orders.order_number'')
      else
        (let stored = ord\<lparr>order_id := next_id (map order_id (orders (pending s)))\<rparr>
         in Inr (s\<lparr>pending := (pending s)\<lparr>orders := orders (pending s) @ [stored]\<rparr>\<rparr>,
                 stored)))"

text \<open>
  The loop over the cart rows.  It works on the products of the open session and on
  the order's product collection, and leaves in one of three ways: the early
  \<^verbatim>\<open>return\<close> of the stock re-check, an exception (\<^verbatim>\<open>cart_item.product\<close> is \<^verbatim>\<open>None\<close>),
  or the end of the rows.  The first two carry the products as far as they were
  changed.
\<close>

datatype loop_exit = OutOfStock string | Raised exc

fun order_lines ::
  "cart_item list \<Rightarrow> (int \<rightharpoonup> product) \<Rightarrow> int list \<Rightarrow>
     (loop_exit \<times> (int \<rightharpoonup> product)) + ((int \<rightharpoonup> product) \<times> int list)" where
  "order_lines [] ps coll = Inr (ps, coll)"
| "order_lines (c # cs) ps coll =
     (case ps (cart_product_id c) of
        None \<Rightarrow> Inl (Raised (AttributeError ''stock_quantity''), ps)
      | Some p \<Rightarrow>
          if stock_quantity p < cart_quantity c
          then Inl (OutOfStock (product_name p), ps)
          else order_lines cs
                 (ps(cart_product_id c \<mapsto>
                       p\<lparr>stock_quantity := stock_quantity p - cart_quantity c\<rparr>))
                 (coll @ [cart_product_id c]))"

definition set_products :: "session \<Rightarrow> (int \<rightharpoonup> product) \<Rightarrow> session" where
  "set_products s ps = s\<lparr>pending := (pending s)\<lparr>products := ps\<rparr>\<rparr>"

definition set_order_products :: "session \<Rightarrow> int \<Rightarrow> int list \<Rightarrow> session" where
  "set_order_products s oid coll =
     s\<lparr>pending := (pending s)\<lparr>orders :=
          map (\<lambda>x. if order_id x = oid then x\<lparr>order_products := coll\<rparr> else x)
            (orders (pending s))\<rparr>\<rparr>"

text \<open>
  \<^verbatim>\<open>create_order_from_cart(user_id, shipping_info, payment_method)\<close>.  The validation
  and the summary read the stored database through sessions of their own.  The
  association table has the primary key \<^verbatim>\<open>(order_id, product_id)\<close>, so the final
  \<^verbatim>\<open>commit\<close> raises when the order's collection holds a product twice.  On success the
  returned payload is taken from the stored order.
\<close>

definition create_order_from_cart ::
  "environment \<Rightarrow> db \<Rightarrow> int \<Rightarrow> (string \<rightharpoonup> string) \<Rightarrow> string \<Rightarrow> order result \<times> db" where
  "create_order_from_cart env d uid shipping_info pay =
     (let s = get_session d;
          cart_validation = validate_cart_for_checkout d uid in
      if \<not> valid cart_validation
      then (Failure (validation_message cart_validation), close s)
      else
        (let cart_summary = get_cart_summary d uid in
         if summary_items cart_summary = [] then (Failure ''Cart is empty'', close s)
         else
           (case flush_order s (new_order env uid cart_summary shipping_info pay) of
              Inl e \<Rightarrow> (FailureExc ''Order creation failed: '' e, close (rollback s))
            | Inr (s1, ord) \<Rightarrow>
                (case order_lines (user_cart (pending s1) uid) (products (pending s1)) [] of
                   Inl (OutOfStock name, ps) \<Rightarrow>
                     (Failure (''Insufficient stock for '' @ name),
                      close (rollback (set_products s1 ps)))
                 | Inl (Raised e, ps) \<Rightarrow>
                     (FailureExc ''Order creation failed: '' e,
                      close (rollback (set_products s1 ps)))
                 | Inr (ps, coll) \<Rightarrow>
                     (let s2 = set_order_products (set_products s1 ps) (order_id ord) coll;
                          s3 = delete_user_cart s2 uid
                      in if \<not> distinct coll
                         then (FailureExc ''Order creation failed: ''
                                 (IntegrityError ''order_items''),
                               close (rollback s3))
                         else (Success ''Order created successfully''
                                 (ord\<lparr>order_products := coll\<rparr>),
                               close (commit s3)))))))"

text \<open>\<^verbatim>\<open>cancel_order(order_id, user_id)\<close>.  The optional \<^verbatim>\<open>user_id\<close> narrows the query
  only when it is truthy: neither \<^verbatim>\<open>None\<close> nor 0.\<close>

definition find_order :: "db \<Rightarrow> int \<Rightarrow> int option \<Rightarrow> order option" where
  "find_order d oid user_opt =
     find (\<lambda>x. order_id x = oid \<and>
               (case user_opt of
                  None \<Rightarrow> True
                | Some u \<Rightarrow> if u \<noteq> 0 then order_user_id x = u else True))
       (orders d)"

primrec restore_stock :: "int list \<Rightarrow> (int \<rightharpoonup> product) \<Rightarrow> (int \<rightharpoonup> product)" where
  "restore_stock [] ps = ps"
| "restore_stock (pid # pids) ps =
     restore_stock pids
       (case ps pid of
          None \<Rightarrow> ps
        | Some p \<Rightarrow> ps(pid \<mapsto> p\<lparr>stock_quantity := stock_quantity p + 1\<rparr>))"

definition mark_cancelled :: "session \<Rightarrow> int \<Rightarrow> nat \<Rightarrow> session" where
  "mark_cancelled s oid t =
     s\<lparr>pending := (pending s)\<lparr>orders :=
          map (\<lambda>x. if order_id x = oid
                   then x\<lparr>status := ''cancelled'', order_updated_at := t\<rparr> else x)
            (orders (pending s))\<rparr>\<rparr>"

definition cancel_order :: "environment \<Rightarrow> db \<Rightarrow> int \<Rightarrow> int option \<Rightarrow> unit result \<times> db" where
  "cancel_order env d oid user_opt =
     (let s = get_session d in
      case find_order (pending s) oid user_opt of
        None \<Rightarrow> (Failure ''Order not found'', close s)
      | Some ord \<Rightarrow>
          if status ord \<in> set [''shipped'', ''delivered'', ''cancelled'']
          then (Failure ''Order cannot be cancelled'', close s)
          else
            (let s1 = set_products s
                        (restore_stock (order_products ord) (products (pending s)));
                 s2 = mark_cancelled s1 (order_id ord) (now env)
             in (Success ''Order cancelled successfully'' (), close (commit s2))))"

text \<open>
  The names bound in the module namespace of \<^verbatim>\<open>order_service.py\<close> and of
  \<^verbatim>\<open>auth_service.py\<close>: what their \<^verbatim>\<open>import\<close> statements and class definitions bind.
  Loading a global name that is neither there nor a builtin raises \<^verbatim>\<open>NameError\<close>.
  Every other global name the modelled functions load is bound, so only the loads of
  \<^verbatim>\<open>func\<close> and \<^verbatim>\<open>or_\<close> are written as branches.  (\<^verbatim>\<open>auth_service.py\<close> also names
  \<^verbatim>\<open>List\<close> in the return annotation of \<^verbatim>\<open>get_all_users\<close> without importing it; the
  functions below are modelled as called, with the class defined.)
\<close>

definition order_service_globals :: "string list" where
  "order_service_globals =
     [''secrets'', ''datetime'', ''List'', ''Dict'', ''Any'', ''Optional'', ''Session'',
      ''and_'', ''desc'', ''get_session'', ''Order'', ''Product'', ''CartItem'', ''User'',
      ''CartService'', ''OrderService'']"

definition auth_service_globals :: "string list" where
  "auth_service_globals =
     [''hashlib'', ''secrets'', ''datetime'', ''timedelta'', ''Optional'', ''Dict'', ''Any'',
      ''Session'', ''and_'', ''get_session'', ''User'', ''settings'', ''AuthService'']"

definition load_global :: "string list \<Rightarrow> string \<Rightarrow> exc + unit" where
  "load_global names x = (if x \<in> set names then Inr () else Inl (NameError x))"

text \<open>
  \<^verbatim>\<open>get_order_statistics()\<close>.  Its \<^verbatim>\<open>try\<close> has a \<^verbatim>\<open>finally\<close> and no \<^verbatim>\<open>except\<close>: an
  exception leaves the function.  The three counts are computed first; the revenue
  query then evaluates \<^verbatim>\<open>func.sum(Order.total_amount)\<close>.
\<close>

record statistics =
  total_orders :: nat
  pending_orders :: nat
  completed_orders :: nat
  total_revenue :: rat
  recent_orders :: "order list"

definition get_order_statistics :: "db \<Rightarrow> exc + statistics" where
  "get_order_statistics d =
     (let n_total = length (orders d);
          n_pending = length (filter (\<lambda>x. status x = ''pending'') (orders d));
          n_completed = length (filter (\<lambda>x. status x = ''delivered'') (orders d))
      in case load_global order_service_globals ''func'' of
           Inl e \<Rightarrow> Inl e
         | Inr u \<Rightarrow>
             Inr \<lparr>total_orders = n_total,
                  pending_orders = n_pending,
                  completed_orders = n_completed,
                  total_revenue =
                    sum_list (map total_amount
                      (filter (\<lambda>x. payment_status x = ''paid'') (orders d))),
                  recent_orders = take 5 (rev (sort_key order_created_at (orders d)))\<rparr>)"

section \<open>Stock update (app/services/product_service.py)\<close>

definition update_stock :: "db \<Rightarrow> int \<Rightarrow> int \<Rightarrow> bool \<times> db" where
  "update_stock d pid quantity_change =
     (let s = get_session d in
      case products (pending s) pid of
        None \<Rightarrow> (False, close s)
      | Some p \<Rightarrow>
          (let new_quantity = stock_quantity p + quantity_change in
           if new_quantity < 0 then (False, close s)
           else (True,
                 close (commit (set_products s
                   ((products (pending s))(pid \<mapsto> p\<lparr>stock_quantity := new_quantity\<rparr>)))))))"

section \<open>Auth service (app/services/auth_service.py)\<close>

text \<open>
  \<^verbatim>\<open>hashlib.sha256(s.encode()).hexdigest()\<close> is a parameter \<open>sha256_hex\<close> of the
  functions that hash.  \<^verbatim>\<open>str.split(':')\<close> cuts at every colon.
\<close>

fun split_on :: "char \<Rightarrow> string \<Rightarrow> string list" where
  "split_on sep [] = [[]]"
| "split_on sep (c # cs) =
     (if c = sep then [] # split_on sep cs
      else (case split_on sep cs of
              [] \<Rightarrow> [[c]]
            | w # ws \<Rightarrow> (c # w) # ws))"

definition hash_password :: "(string \<Rightarrow> string) \<Rightarrow> environment \<Rightarrow> string \<Rightarrow> string" where
  "hash_password sha256_hex env password =
     (let salt = token_hex (random_bytes env);
          password_hash = sha256_hex (password @ salt)
      in salt @ '':'' @ password_hash)"

definition verify_password :: "(string \<Rightarrow> string) \<Rightarrow> string \<Rightarrow> string \<Rightarrow> bool" where
  "verify_password sha256_hex password hashed =
     (case split_on CHR '':'' hashed of
        [salt, password_hash] \<Rightarrow> sha256_hex (password @ salt) = password_hash
      | _ \<Rightarrow> False)"

definition add_user :: "session \<Rightarrow> user \<Rightarrow> session" where
  "add_user s u = s\<lparr>pending := (pending s)\<lparr>users := users (pending s) @ [u]\<rparr>\<rparr>"

definition touch_user :: "session \<Rightarrow> int \<Rightarrow> nat \<Rightarrow> session" where
  "touch_user s ident t =
     s\<lparr>pending := (pending s)\<lparr>users :=
          map (\<lambda>u. if user_ident u = ident then u\<lparr>user_updated_at := t\<rparr> else u)
            (users (pending s))\<rparr>\<rparr>"

text \<open>
  \<^verbatim>\<open>register_user(username, email, password, full_name)\<close>.  The first statement of the
  \<^verbatim>\<open>try\<close> block builds its filter with \<^verbatim>\<open>or_(...)\<close>; an exception there goes to the
  handler, which rolls back and returns the failure dictionary.
\<close>

definition register_user ::
  "(string \<Rightarrow> string) \<Rightarrow> environment \<Rightarrow> db \<Rightarrow> string \<Rightarrow> string \<Rightarrow> string \<Rightarrow> string option
     \<Rightarrow> user result \<times> db" where
  "register_user sha256_hex env d uname mail password fname =
     (let s = get_session d in
      case load_global auth_service_globals ''or_'' of
        Inl e \<Rightarrow> (FailureExc ''Registration failed: '' e, close (rollback s))
      | Inr u \<Rightarrow>
          (case find (\<lambda>x. username x = uname \<or> email x = mail) (users (pending s)) of
             Some existing_user \<Rightarrow>
               if username existing_user = uname
               then (Failure ''Username already exists'', close s)
               else (Failure ''Email already registered'', close s)
           | None \<Rightarrow>
               (let created =
                      \<lparr>user_ident = next_id (map user_ident (users (pending s))),
                       username = uname,
                       email = mail,
                       full_name = fname,
                       hashed_password = hash_password sha256_hex env password,
                       user_is_active = True,
                       user_is_admin = False,
                       user_created_at = now env,
                       user_updated_at = now env\<rparr>
                in (Success ''User registered successfully'' created,
                    close (commit (add_user s created))))))"

text \<open>
  \<^verbatim>\<open>authenticate_user(username, password)\<close>.  Its handler returns the failure
  dictionary without a rollback.
\<close>

definition authenticate_user ::
  "(string \<Rightarrow> string) \<Rightarrow> environment \<Rightarrow> db \<Rightarrow> string \<Rightarrow> string \<Rightarrow> user result \<times> db" where
  "authenticate_user sha256_hex env d uname password =
     (let s = get_session d in
      case load_global auth_service_globals ''or_'' of
        Inl e \<Rightarrow> (FailureExc ''Authentication failed: '' e, close s)
      | Inr u \<Rightarrow>
          (case find (\<lambda>x. (username x = uname \<or> email x = uname) \<and> user_is_active x)
                  (users (pending s)) of
             None \<Rightarrow> (Failure ''Invalid credentials'', close s)
           | Some found \<Rightarrow>
               if \<not> verify_password sha256_hex password (hashed_password found)
               then (Failure ''Invalid credentials'', close s)
               else (Success ''Authentication successful''
                       (found\<lparr>user_updated_at := now env\<rparr>),
                     close (commit (touch_user s (user_ident found) (now env))))))"

section \<open>Sequences of operations\<close>

text \<open>The calls that touch the stock or the cart, and a run of them one after another,
  each on the database the previous one left.\<close>

datatype operation =
    Add int int int
  | Checkout environment int "string \<rightharpoonup> string" string
  | Cancel environment int "int option"
  | UpdateStock int int

fun apply_operation :: "db \<Rightarrow> operation \<Rightarrow> db" where
  "apply_operation d (Add uid pid quantity) = snd (add_to_cart d uid pid quantity)"
| "apply_operation d (Checkout env uid shipping_info pay) =
     snd (create_order_from_cart env d uid shipping_info pay)"
| "apply_operation d (Cancel env oid user_opt) = snd (cancel_order env d oid user_opt)"
| "apply_operation d (UpdateStock pid quantity_change) =
     snd (update_stock d pid quantity_change)"

definition run :: "db \<Rightarrow> operation list \<Rightarrow> db" where
  "run d ops = foldl apply_operation d ops"

text \<open>The stock of product \<open>pid\<close>, if there is such a product, is not negative.\<close>

definition stock_never_negative :: "db \<Rightarrow> int \<Rightarrow> bool" where
  "stock_never_negative d pid \<longleftrightarrow>
     (\<forall>p. products d pid = Some p \<longrightarrow> 0 \<le> stock_quantity p)"

text \<open>The quantity of one product in a user's cart, over all rows of the pair.\<close>

definition cart_quantity_of :: "db \<Rightarrow> int \<Rightarrow> int \<Rightarrow> int" where
  "cart_quantity_of d uid pid = sum_list (map cart_quantity (cart_rows d uid pid))"

text \<open>The order row a successful \<^verbatim>\<open>create_order_from_cart\<close> stores and returns, given the
  product collection the loop built.\<close>

definition placed_order ::
  "environment \<Rightarrow> db \<Rightarrow> int \<Rightarrow> (string \<rightharpoonup> string) \<Rightarrow> string \<Rightarrow> int list \<Rightarrow> order" where
  "placed_order env d uid shipping_info pay coll =
     (new_order env uid (get_cart_summary d uid) shipping_info pay)
       \<lparr>order_id := next_id (map order_id (orders d)), order_products := coll\<rparr>"

text \<open>Every cart row holds a quantity of at least 1.\<close>

definition cart_quantities_positive :: "db \<Rightarrow> bool" where
  "cart_quantities_positive d \<longleftrightarrow> list_all (\<lambda>c. 1 \<le> cart_quantity c) (cart_items d)"

section \<open>Example data\<close>

definition f91w :: product where
  "f91w = \<lparr>product_name = ''F-91W'', price = 20, stock_quantity = 5,
           product_is_active = True\<rparr>"

definition shop :: db where
  "shop = \<lparr>users = [], products = [1 \<mapsto> f91w], cart_items = [], orders = []\<rparr>"

definition noon :: environment where
  "noon = \<lparr>today = \<lparr>year = 2024, month = 3, day = 9\<rparr>, now = 1000,
           random_bytes = [0x3f, 0xa0, 0x0b, 0xc7]\<rparr>"

text \<open>The shop after user 1 bought three F-91W: two are left, and the order is pending.\<close>

definition first_order :: order where
  "first_order =
     \<lparr>order_id = 1, order_number = ''CW202403093FA00BC7'', order_user_id = 1,
      total_amount = 7479 / 100, tax_amount = 24 / 5, shipping_amount = 999 / 100,
      discount_amount = 0, status = ''pending'', payment_status = ''pending'',
      payment_method = ''stripe'',
      order_shipping =
        \<lparr>shipping_name = [], shipping_email = [], shipping_phone = [],
         shipping_address = [], shipping_city = [], shipping_state = [],
         shipping_zip = [], shipping_country = ''USA''\<rparr>,
      order_created_at = 1000, order_updated_at = 1000, order_products = [1]\<rparr>"

definition shop_ordered :: db where
  "shop_ordered =
     \<lparr>users = [], products = [1 \<mapsto> f91w\<lparr>stock_quantity := 2\<rparr>], cart_items = [],
      orders = [first_order]\<rparr>"

definition shop_shipped :: db where
  "shop_shipped = shop_ordered\<lparr>orders := [first_order\<lparr>status := ''shipped''\<rparr>]\<rparr>"

text \<open>User 1 holds three F-91W in the cart; and the same cart with a second row of three
  for the same watch, which the five in stock cannot serve together.\<close>

definition shop_cart3 :: db where
  "shop_cart3 =
     shop\<lparr>cart_items := [\<lparr>cart_item_id = 1, cart_user_id = 1, cart_product_id = 1,
                             cart_quantity = 3\<rparr>]\<rparr>"

definition shop_double :: db where
  "shop_double =
     shop\<lparr>cart_items := [\<lparr>cart_item_id = 1, cart_user_id = 1, cart_product_id = 1,
                             cart_quantity = 3\<rparr>,
                           \<lparr>cart_item_id = 2, cart_user_id = 1, cart_product_id = 1,
                             cart_quantity = 3\<rparr>]\<rparr>"


section \<open>Adding to the cart\<close>

lemma fold_max_ge: "a \<le> fold max xs (a::int)"
proof (induction xs arbitrary: a)
  case Nil
  show ?case by simp
next
  case (Cons x xs)
  have "a \<le> max x a" by simp
  also have "max x a \<le> fold max xs (max x a)" by (rule Cons.IH)
  finally show ?case by simp
qed

lemma fold_max_member: "x \<in> set xs \<Longrightarrow> x \<le> fold max xs (a::int)"
proof (induction xs arbitrary: a)
  case Nil
  then show ?case by simp
next
  case (Cons y ys)
  show ?case
  proof (cases "x = y")
    case True
    have "y \<le> max y a" by simp
    also have "max y a \<le> fold max ys (max y a)" by (rule fold_max_ge)
    finally show ?thesis using True by simp
  next
    case False
    with Cons.prems have "x \<in> set ys" by simp
    then show ?thesis using Cons.IH by simp
  qed
qed

lemma next_id_fresh: "x \<in> set ids \<Longrightarrow> x < next_id ids"
  using fold_max_member [of x ids 0] by (simp add: next_id_def)

lemma find_Some_props: "find P xs = Some x \<Longrightarrow> P x \<and> x \<in> set xs"
  by (induction xs) (auto split: if_splits)

lemma find_append_fresh:
  "filter P xs = [] \<Longrightarrow> P r \<Longrightarrow> find P (xs @ [r]) = Some r"
  by (induction xs) (auto split: if_splits)

lemma filter_None_find: "filter P xs = [] \<Longrightarrow> find P xs = None"
  by (induction xs) (auto split: if_splits)

lemma add_to_cart_new:
  assumes "products d pid = Some p" and "product_is_active p"
    and "find_cart_item d uid pid = None" and "q \<le> stock_quantity p"
  shows "add_to_cart d uid pid q =
           (Success ''Item added to cart'' (),
            d\<lparr>cart_items := cart_items d @
                 [\<lparr>cart_item_id = next_id (map cart_item_id (cart_items d)),
                   cart_user_id = uid, cart_product_id = pid, cart_quantity = q\<rparr>]\<rparr>)"
  using assms
  by (simp add: add_to_cart_def active_product_def get_session_def commit_def close_def
      add_cart_item_def)

lemma add_to_cart_existing:
  assumes "products d pid = Some p" and "product_is_active p"
    and "find_cart_item d uid pid = Some e" and "q \<le> stock_quantity p"
    and "cart_quantity e + q \<le> stock_quantity p"
  shows "add_to_cart d uid pid q =
           (Success ''Item added to cart'' (),
            d\<lparr>cart_items :=
                 map (\<lambda>c. if cart_item_id c = cart_item_id e
                          then c\<lparr>cart_quantity := cart_quantity e + q\<rparr> else c)
                   (cart_items d)\<rparr>)"
  using assms
  by (simp add: add_to_cart_def active_product_def get_session_def commit_def close_def
      set_cart_quantity_def Let_def)

lemma add_to_cart_insufficient:
  assumes "products d pid = Some p" and "product_is_active p"
    and "stock_quantity p < requested_total d uid pid q"
  shows "add_to_cart d uid pid q = (Failure ''Insufficient stock'', d)"
  using assms
  by (auto simp: add_to_cart_def requested_total_def active_product_def get_session_def
      close_def Let_def split: option.splits)

lemma filter_map_quantity:
  "filter (\<lambda>c. cart_user_id c = uid \<and> cart_product_id c = pid)
     (map (\<lambda>c. if cart_item_id c = i then c\<lparr>cart_quantity := n\<rparr> else c) xs) =
   map (\<lambda>c. if cart_item_id c = i then c\<lparr>cart_quantity := n\<rparr> else c)
     (filter (\<lambda>c. cart_user_id c = uid \<and> cart_product_id c = pid) xs)"
  by (induction xs) auto

lemma add_to_cart_shop_3:
  "add_to_cart shop 1 1 3 =
     (Success ''Item added to cart'' (),
      shop\<lparr>cart_items := [\<lparr>cart_item_id = 1, cart_user_id = 1, cart_product_id = 1,
                              cart_quantity = 3\<rparr>]\<rparr>)"
  by (simp add: add_to_cart_def shop_def f91w_def active_product_def find_cart_item_def
      get_session_def commit_def close_def add_cart_item_def next_id_def)

text \<open>
  C4, as amended.  For an active product and a user with no cart row for it, adding
  quantities \<open>q1\<close> and then \<open>q2\<close>, both at least 1 and with \<open>q1 + q2\<close> within the
  stock, succeeds twice and leaves exactly one row of the pair, with quantity
  \<open>q1 + q2\<close>.  For any quantity, if the stock is below the requested total (the
  existing row's quantity plus the new one when a row exists, else the new one), the
  call returns the message \<^verbatim>\<open>Insufficient stock\<close> and the database, hence the
  existing row, is unchanged.
\<close>

theorem add_to_cart_twice:
  assumes prod: "products d pid = Some p" and act: "product_is_active p"
  shows "(cart_rows d uid pid = [] \<and> 1 \<le> q1 \<and> 1 \<le> q2 \<and> q1 + q2 \<le> stock_quantity p \<longrightarrow>
            is_success (fst (add_to_cart d uid pid q1)) \<and>
            is_success (fst (add_to_cart (snd (add_to_cart d uid pid q1)) uid pid q2)) \<and>
            map cart_quantity
              (cart_rows (snd (add_to_cart (snd (add_to_cart d uid pid q1)) uid pid q2))
                 uid pid) = [q1 + q2]) \<and>
         (stock_quantity p < requested_total d uid pid q \<longrightarrow>
            add_to_cart d uid pid q = (Failure ''Insufficient stock'', d))"
proof (intro conjI impI)
  assume h: "cart_rows d uid pid = [] \<and> 1 \<le> q1 \<and> 1 \<le> q2 \<and> q1 + q2 \<le> stock_quantity p"
  let ?P = "\<lambda>c. cart_user_id c = uid \<and> cart_product_id c = pid"
  let ?r = "\<lparr>cart_item_id = next_id (map cart_item_id (cart_items d)),
             cart_user_id = uid, cart_product_id = pid, cart_quantity = q1\<rparr>"
  let ?d1 = "d\<lparr>cart_items := cart_items d @ [?r]\<rparr>"
  from h have empty: "filter ?P (cart_items d) = []" by (simp add: cart_rows_def)
  then have none: "find_cart_item d uid pid = None"
    by (simp add: find_cart_item_def filter_None_find)
  from h have le1: "q1 \<le> stock_quantity p" and le2: "q2 \<le> stock_quantity p" by auto
  have first: "add_to_cart d uid pid q1 = (Success ''Item added to cart'' (), ?d1)"
    by (rule add_to_cart_new [OF prod act none le1])
  have found: "find_cart_item ?d1 uid pid = Some ?r"
    using empty by (simp add: find_cart_item_def find_append_fresh)
  have prod1: "products ?d1 pid = Some p" using prod by simp
  have sum_le: "cart_quantity ?r + q2 \<le> stock_quantity p" using h by simp
  note second = add_to_cart_existing [OF prod1 act found le2 sum_le]
  show "is_success (fst (add_to_cart d uid pid q1))" by (simp add: first)
  show "is_success (fst (add_to_cart (snd (add_to_cart d uid pid q1)) uid pid q2))"
    by (simp add: first second)
  show "map cart_quantity
          (cart_rows (snd (add_to_cart (snd (add_to_cart d uid pid q1)) uid pid q2))
             uid pid) = [q1 + q2]"
    using empty by (simp add: first second cart_rows_def filter_map_quantity)
next
  assume "stock_quantity p < requested_total d uid pid q"
  then show "add_to_cart d uid pid q = (Failure ''Insufficient stock'', d)"
    by (rule add_to_cart_insufficient [OF prod act])
qed

text \<open>
  The scenario of the specification: stock 5, the user adds 3 and then 2 and holds one
  row of 5; adding 3 and then 3 more, the second call is refused and the row keeps 3.
\<close>

theorem add_to_cart_twice_witness:
  "products shop 1 = Some f91w \<and> product_is_active f91w \<and> cart_rows shop 1 1 = [] \<and>
   map cart_quantity
     (cart_rows (snd (add_to_cart (snd (add_to_cart shop 1 1 3)) 1 1 2)) 1 1) = [5] \<and>
   add_to_cart (snd (add_to_cart shop 1 1 3)) 1 1 3 =
     (Failure ''Insufficient stock'', snd (add_to_cart shop 1 1 3)) \<and>
   map cart_quantity (cart_rows (snd (add_to_cart shop 1 1 3)) 1 1) = [3]"
proof -
  have prod: "products shop 1 = Some f91w" by (simp add: shop_def)
  have act: "product_is_active f91w" by (simp add: f91w_def)
  have rows: "cart_rows shop 1 1 = []" by (simp add: cart_rows_def shop_def)
  have stock: "stock_quantity f91w = 5" by (simp add: f91w_def)
  note first = add_to_cart_shop_3
  have prod1: "products (snd (add_to_cart shop 1 1 3)) 1 = Some f91w"
    unfolding first by (simp add: shop_def)
  have total: "requested_total (snd (add_to_cart shop 1 1 3)) 1 1 3 = 6"
    by (simp add: first requested_total_def find_cart_item_def)
  have merged: "map cart_quantity
     (cart_rows (snd (add_to_cart (snd (add_to_cart shop 1 1 3)) 1 1 2)) 1 1) = [5]"
    using add_to_cart_twice [OF prod act, of 1 3 2] rows stock by simp
  have refused: "add_to_cart (snd (add_to_cart shop 1 1 3)) 1 1 3 =
     (Failure ''Insufficient stock'', snd (add_to_cart shop 1 1 3))"
    using add_to_cart_twice [OF prod1 act, of 1 3 2 3] total stock by simp
  have kept: "map cart_quantity (cart_rows (snd (add_to_cart shop 1 1 3)) 1 1) = [3]"
    by (simp add: first cart_rows_def)
  show ?thesis using prod act rows merged refused kept by simp
qed

text \<open>
  C4 as stated fails when a quantity is not positive: with stock 5 and an empty cart,
  adding \<open>-2\<close> creates a row of \<open>-2\<close>, and adding 7 is then refused by the first
  stock check (5 is below 7), although \<open>-2 + 7\<close> is within the stock.  The pair keeps
  one row of \<open>-2\<close>, not of 5.
\<close>

theorem add_to_cart_twice_counterexample:
  "products shop 1 = Some f91w \<and> product_is_active f91w \<and> cart_rows shop 1 1 = [] \<and>
   (- 2) + 7 \<le> stock_quantity f91w \<and>
   fst (add_to_cart (snd (add_to_cart shop 1 1 (- 2))) 1 1 7) = Failure ''Insufficient stock'' \<and>
   map cart_quantity
     (cart_rows (snd (add_to_cart (snd (add_to_cart shop 1 1 (- 2))) 1 1 7)) 1 1) = [- 2] \<and>
   map cart_quantity
     (cart_rows (snd (add_to_cart (snd (add_to_cart shop 1 1 (- 2))) 1 1 7)) 1 1) \<noteq> [(- 2) + 7]"
  by (simp add: add_to_cart_def shop_def f91w_def active_product_def find_cart_item_def
      get_session_def commit_def close_def add_cart_item_def next_id_def cart_rows_def)

section \<open>Cart rows and non-positive quantities\<close>

text \<open>
  \<^verbatim>\<open>remove_from_cart\<close>, \<^verbatim>\<open>update_cart_item_quantity\<close> and \<^verbatim>\<open>clear_cart\<close> keep every
  cart quantity at 1 or more, and so does \<^verbatim>\<open>add_to_cart\<close> when the quantity it is
  given is at least 1.
\<close>

lemma remove_from_cart_positive:
  "cart_quantities_positive d \<Longrightarrow>
   cart_quantities_positive (snd (remove_from_cart d uid pid))"
  by (auto simp: cart_quantities_positive_def remove_from_cart_def get_session_def
      commit_def close_def delete_cart_item_def list_all_iff Let_def split: option.splits)

lemma update_cart_item_quantity_positive:
  "cart_quantities_positive d \<Longrightarrow>
   cart_quantities_positive (snd (update_cart_item_quantity d uid pid q))"
proof (cases "q \<le> 0")
  case True
  assume "cart_quantities_positive d"
  then show ?thesis
    using True remove_from_cart_positive [of d uid pid]
    by (simp add: update_cart_item_quantity_def get_session_def close_def Let_def)
next
  case False
  assume "cart_quantities_positive d"
  then show ?thesis
    using False
    by (auto simp: cart_quantities_positive_def update_cart_item_quantity_def
        get_session_def commit_def close_def set_cart_quantity_def list_all_iff Let_def
        split: option.splits)
qed

lemma clear_cart_positive:
  "cart_quantities_positive d \<Longrightarrow> cart_quantities_positive (snd (clear_cart d uid))"
  by (auto simp: cart_quantities_positive_def clear_cart_def get_session_def commit_def
      close_def delete_user_cart_def list_all_iff)

lemma find_cart_item_member:
  "find_cart_item d uid pid = Some c \<Longrightarrow> c \<in> set (cart_items d)"
  by (simp add: find_cart_item_def find_Some_props)

lemma add_to_cart_positive:
  "cart_quantities_positive d \<Longrightarrow> 1 \<le> q \<Longrightarrow>
   cart_quantities_positive (snd (add_to_cart d uid pid q))"
  by (fastforce simp: cart_quantities_positive_def add_to_cart_def get_session_def commit_def
      close_def set_cart_quantity_def add_cart_item_def list_all_iff Let_def
      dest: find_cart_item_member split: option.splits)

text \<open>
  C10.  \<^verbatim>\<open>update_cart_item_quantity\<close> sends a quantity that is not positive to
  \<^verbatim>\<open>remove_from_cart\<close>; \<^verbatim>\<open>add_to_cart\<close> has no such check.  On a shop with stock 5
  and an empty cart, \<^verbatim>\<open>add_to_cart(1, 1, 0)\<close> succeeds and stores a row of quantity 0.
\<close>

theorem add_to_cart_zero_quantity:
  "cart_quantities_positive shop \<and>
   add_to_cart shop 1 1 0 =
     (Success ''Item added to cart'' (),
      shop\<lparr>cart_items := [\<lparr>cart_item_id = 1, cart_user_id = 1, cart_product_id = 1,
                              cart_quantity = 0\<rparr>]\<rparr>) \<and>
   \<not> cart_quantities_positive (snd (add_to_cart shop 1 1 0))"
  by (simp add: add_to_cart_def shop_def f91w_def active_product_def find_cart_item_def
      get_session_def commit_def close_def add_cart_item_def next_id_def
      cart_quantities_positive_def)

section \<open>Unbound names in the auth and order services\<close>

text \<open>
  C7.  \<^verbatim>\<open>auth_service.py\<close> imports \<^verbatim>\<open>and_\<close> from sqlalchemy and not \<^verbatim>\<open>or_\<close>
  (\<^verbatim>\<open>product_service.py\<close> imports both).  Whatever the users table holds,
  \<^verbatim>\<open>register_user\<close> returns the failure of its exception handler and stores nothing.
\<close>

theorem register_user_name_error:
  "register_user sha256_hex env d uname mail password fname =
     (FailureExc ''Registration failed: '' (NameError ''or_''), d)"
  by (simp add: register_user_def load_global_def auth_service_globals_def
      get_session_def rollback_def close_def)

text \<open>
  C8.  For the same reason \<^verbatim>\<open>authenticate_user\<close> returns the failure of its exception
  handler for every user, password and users table: never a success, and never the
  message \<^verbatim>\<open>Invalid credentials\<close>.
\<close>

theorem authenticate_user_name_error:
  "authenticate_user sha256_hex env d uname password =
     (FailureExc ''Authentication failed: '' (NameError ''or_''), d)"
  by (simp add: authenticate_user_def load_global_def auth_service_globals_def
      get_session_def close_def)

text \<open>
  C9.  \<^verbatim>\<open>order_service.py\<close> imports \<^verbatim>\<open>and_\<close> and \<^verbatim>\<open>desc\<close> from sqlalchemy and not
  \<^verbatim>\<open>func\<close>.  \<^verbatim>\<open>get_order_statistics\<close> has no exception handler, so on every database
  the \<^verbatim>\<open>NameError\<close> reaches the caller and no record is returned.
\<close>

theorem get_order_statistics_raises:
  "get_order_statistics d = Inl (NameError ''func'')"
  by (simp add: get_order_statistics_def load_global_def order_service_globals_def)

section \<open>Cancelling an order\<close>

lemma restore_stock_other:
  "pid \<notin> set pids \<Longrightarrow> restore_stock pids ps pid = ps pid"
  by (induction pids arbitrary: ps) (auto split: option.splits)

lemma restore_stock_distinct:
  "distinct pids \<Longrightarrow>
   restore_stock pids ps pid =
     map_option (\<lambda>p. if pid \<in> set pids then p\<lparr>stock_quantity := stock_quantity p + 1\<rparr> else p)
       (ps pid)"
proof (induction pids arbitrary: ps)
  case Nil
  show ?case by (simp add: option.map_ident)
next
  case (Cons x xs)
  then have d: "distinct xs" and nx: "x \<notin> set xs" by auto
  let ?ps = "case ps x of None \<Rightarrow> ps
             | Some p \<Rightarrow> ps(x \<mapsto> p\<lparr>stock_quantity := stock_quantity p + 1\<rparr>)"
  have step: "restore_stock (x # xs) ps pid = restore_stock xs ?ps pid" by simp
  show ?case
  proof (cases "pid = x")
    case True
    have "restore_stock xs ?ps x = ?ps x" using nx by (rule restore_stock_other)
    also have "?ps x = map_option (\<lambda>p. p\<lparr>stock_quantity := stock_quantity p + 1\<rparr>) (ps x)"
      by (cases "ps x") simp_all
    finally show ?thesis using True step by simp
  next
    case False
    have ne: "?ps pid = ps pid" using False by (cases "ps x") simp_all
    have "restore_stock xs ?ps pid =
            map_option (\<lambda>p. if pid \<in> set xs
                              then p\<lparr>stock_quantity := stock_quantity p + 1\<rparr> else p) (?ps pid)"
      by (rule Cons.IH [OF d])
    then show ?thesis using False step ne by simp
  qed
qed

lemma find_map_same:
  assumes "\<And>x. P (f x) = P x"
  shows "find P (map f xs) = map_option f (find P xs)"
  using assms by (induction xs) auto

lemma cancel_order_refused:
  assumes "find_order d oid user_opt = Some ord"
    and "status ord \<in> set [''shipped'', ''delivered'', ''cancelled'']"
  shows "cancel_order env d oid user_opt = (Failure ''Order cannot be cancelled'', d)"
  using assms by (simp add: cancel_order_def get_session_def close_def)

lemma cancel_order_done:
  assumes "find_order d oid user_opt = Some ord"
    and "status ord \<notin> set [''shipped'', ''delivered'', ''cancelled'']"
  shows "cancel_order env d oid user_opt =
           (Success ''Order cancelled successfully'' (),
            d\<lparr>products := restore_stock (order_products ord) (products d),
              orders := map (\<lambda>x. if order_id x = order_id ord
                                  then x\<lparr>status := ''cancelled'', order_updated_at := now env\<rparr>
                                  else x) (orders d)\<rparr>)"
  using assms
  by (simp add: cancel_order_def get_session_def close_def commit_def set_products_def
      mark_cancelled_def Let_def)

lemma find_order_cancelled:
  "find_order (d\<lparr>products := ps,
                  orders := map (\<lambda>x. if order_id x = i
                                      then x\<lparr>status := ''cancelled'', order_updated_at := t\<rparr>
                                      else x) (orders d)\<rparr>) oid user_opt =
   map_option (\<lambda>x. if order_id x = i
                    then x\<lparr>status := ''cancelled'', order_updated_at := t\<rparr> else x)
     (find_order d oid user_opt)"
proof -
  let ?f = "\<lambda>x. if order_id x = i
                 then x\<lparr>status := ''cancelled'', order_updated_at := t\<rparr> else x"
  let ?P = "\<lambda>x. order_id x = oid \<and>
               (case user_opt of None \<Rightarrow> True
                | Some u \<Rightarrow> if u \<noteq> 0 then order_user_id x = u else True)"
  have same: "\<And>x. ?P (?f x) = ?P x" by (cases user_opt) simp_all
  have "find ?P (map ?f (orders d)) = map_option ?f (find ?P (orders d))"
    using same by (rule find_map_same)
  then show ?thesis by (simp add: find_order_def)
qed

text \<open>
  C6.  For an order that the query finds: when its status is \<^verbatim>\<open>shipped\<close>,
  \<^verbatim>\<open>delivered\<close> or \<^verbatim>\<open>cancelled\<close>, \<^verbatim>\<open>cancel_order\<close> fails and the database is
  unchanged.  Otherwise it succeeds, the order is stored with status \<^verbatim>\<open>cancelled\<close>,
  and the stock of every product associated with the order grows by exactly 1, that of
  every other product not at all; no purchased quantity enters.  The association rows
  of one order name distinct products (the table's primary key).
\<close>

theorem cancel_order_effect:
  assumes found: "find_order d oid user_opt = Some ord"
  shows "(status ord \<in> set [''shipped'', ''delivered'', ''cancelled''] \<longrightarrow>
            cancel_order env d oid user_opt = (Failure ''Order cannot be cancelled'', d)) \<and>
         (status ord \<notin> set [''shipped'', ''delivered'', ''cancelled''] \<and>
          distinct (order_products ord) \<longrightarrow>
            fst (cancel_order env d oid user_opt) = Success ''Order cancelled successfully'' () \<and>
            find_order (snd (cancel_order env d oid user_opt)) oid user_opt =
              Some (ord\<lparr>status := ''cancelled'', order_updated_at := now env\<rparr>) \<and>
            (\<forall>pid. products (snd (cancel_order env d oid user_opt)) pid =
                     map_option
                       (\<lambda>p. if pid \<in> set (order_products ord)
                            then p\<lparr>stock_quantity := stock_quantity p + 1\<rparr> else p)
                       (products d pid)) \<and>
            cart_items (snd (cancel_order env d oid user_opt)) = cart_items d \<and>
            users (snd (cancel_order env d oid user_opt)) = users d)"
proof (intro conjI impI)
  assume "status ord \<in> set [''shipped'', ''delivered'', ''cancelled'']"
  then show "cancel_order env d oid user_opt = (Failure ''Order cannot be cancelled'', d)"
    by (rule cancel_order_refused [OF found])
next
  assume h: "status ord \<notin> set [''shipped'', ''delivered'', ''cancelled''] \<and>
             distinct (order_products ord)"
  then have open_status: "status ord \<notin> set [''shipped'', ''delivered'', ''cancelled'']"
    and dist: "distinct (order_products ord)" by blast+
  note eq = cancel_order_done [OF found open_status, of env]
  show "fst (cancel_order env d oid user_opt) = Success ''Order cancelled successfully'' ()"
    by (simp only: eq fst_conv)
  show "find_order (snd (cancel_order env d oid user_opt)) oid user_opt =
               Some (ord\<lparr>status := ''cancelled'', order_updated_at := now env\<rparr>)"
    by (simp only: eq snd_conv find_order_cancelled found) simp
  show "\<forall>pid. products (snd (cancel_order env d oid user_opt)) pid =
                map_option
                  (\<lambda>p. if pid \<in> set (order_products ord)
                       then p\<lparr>stock_quantity := stock_quantity p + 1\<rparr> else p)
                  (products d pid)"
    by (simp add: eq restore_stock_distinct [OF dist])
  show "cart_items (snd (cancel_order env d oid user_opt)) = cart_items d"
    by (simp add: eq)
  show "users (snd (cancel_order env d oid user_opt)) = users d"
    by (simp add: eq)
qed

text \<open>
  Three F-91W were bought (stock 5 to 2); cancelling that order brings the stock to 3.
  The same order once shipped cannot be cancelled, and nothing changes.
\<close>

theorem cancel_order_effect_witness:
  "find_order shop_ordered 1 None = Some first_order \<and>
   map_option stock_quantity (products shop_ordered 1) = Some 2 \<and>
   fst (cancel_order noon shop_ordered 1 None) = Success ''Order cancelled successfully'' () \<and>
   map_option status (find_order (snd (cancel_order noon shop_ordered 1 None)) 1 None) =
     Some ''cancelled'' \<and>
   map_option stock_quantity (products (snd (cancel_order noon shop_ordered 1 None)) 1) =
     Some 3 \<and>
   find_order shop_shipped 1 None = Some (first_order\<lparr>status := ''shipped''\<rparr>) \<and>
   cancel_order noon shop_shipped 1 None = (Failure ''Order cannot be cancelled'', shop_shipped)"
proof -
  have found: "find_order shop_ordered 1 None = Some first_order"
    by (simp add: find_order_def shop_ordered_def first_order_def)
  have found': "find_order shop_shipped 1 None = Some (first_order\<lparr>status := ''shipped''\<rparr>)"
    by (simp add: find_order_def shop_shipped_def first_order_def)
  have pending: "status first_order \<notin> set [''shipped'', ''delivered'', ''cancelled''] \<and>
                 distinct (order_products first_order)"
    by (simp add: first_order_def)
  have shipped: "status (first_order\<lparr>status := ''shipped''\<rparr>) \<in>
                   set [''shipped'', ''delivered'', ''cancelled'']"
    by simp
  have s2: "map_option stock_quantity (products shop_ordered 1) = Some 2"
    by (simp add: shop_ordered_def)
  note cancelled = cancel_order_effect [OF found, of noon, THEN conjunct2, THEN mp, OF pending]
  note refused = cancel_order_effect [OF found', of noon, THEN conjunct1, THEN mp, OF shipped]
  have ok: "fst (cancel_order noon shop_ordered 1 None) =
              Success ''Order cancelled successfully'' ()"
    by (rule cancelled [THEN conjunct1])
  have st: "map_option status (find_order (snd (cancel_order noon shop_ordered 1 None)) 1 None) =
              Some ''cancelled''"
    by (simp only: cancelled [THEN conjunct2, THEN conjunct1]) simp
  have "products (snd (cancel_order noon shop_ordered 1 None)) 1 =
          map_option
            (\<lambda>p. if 1 \<in> set (order_products first_order)
                 then p\<lparr>stock_quantity := stock_quantity p + 1\<rparr> else p)
            (products shop_ordered 1)"
    using cancelled [THEN conjunct2, THEN conjunct2, THEN conjunct1] by (rule spec)
  then have s3: "map_option stock_quantity
                   (products (snd (cancel_order noon shop_ordered 1 None)) 1) = Some 3"
    by (simp add: first_order_def shop_ordered_def)
  show ?thesis
    by (intro conjI) (rule s2 found ok st s3 found' refused)+
qed

section \<open>Checkout\<close>

lemma session_simps:
  "persisted (get_session d) = d"
  "pending (get_session d) = d"
  "persisted (set_products s ps) = persisted s"
  "persisted (set_order_products s i coll) = persisted s"
  "persisted (delete_user_cart s uid) = persisted s"
  "persisted (rollback s) = persisted s"
  "persisted (commit s) = pending s"
  "close s = persisted s"
  by (simp_all add: get_session_def set_products_def set_order_products_def
      delete_user_cart_def close_def rollback_def commit_def)

lemma map_fresh_id:
  "map (\<lambda>x. if order_id x = next_id (map order_id os) then f x else x) os = os"
proof -
  have "\<And>x. x \<in> set os \<Longrightarrow> order_id x \<noteq> next_id (map order_id os)"
    using next_id_fresh [of _ "map order_id os"] by fastforce
  then show ?thesis by (simp add: map_idI)
qed

lemma create_order_failure_keeps:
  "\<not> is_success (fst (create_order_from_cart env d uid shipping_info pay)) \<Longrightarrow>
   snd (create_order_from_cart env d uid shipping_info pay) = d"
  by (auto simp: create_order_from_cart_def Let_def session_simps flush_order_def
      split: sum.splits prod.splits loop_exit.splits if_splits)

lemma create_order_success_shape:
  assumes "create_order_from_cart env d uid shipping_info pay = (Success m ord, d')"
  shows "\<exists>ps coll.
           valid (validate_cart_for_checkout d uid) \<and>
           generate_order_number env \<notin> set (map order_number (orders d)) \<and>
           order_lines (user_cart d uid) (products d) [] = Inr (ps, coll) \<and>
           distinct coll \<and>
           m = ''Order created successfully'' \<and>
           ord = placed_order env d uid shipping_info pay coll \<and>
           d' = d\<lparr>products := ps,
                  cart_items := filter (\<lambda>c. cart_user_id c \<noteq> uid) (cart_items d),
                  orders := orders d @ [ord]\<rparr>"
  using assms
  by (auto simp: create_order_from_cart_def Let_def session_simps flush_order_def
      user_cart_def set_products_def set_order_products_def delete_user_cart_def
      get_session_def commit_def placed_order_def map_fresh_id new_order_def
      split: sum.splits prod.splits loop_exit.splits if_splits)

lemma cart_lines_length:
  "cart_issues ps rows = [] \<Longrightarrow> length (cart_lines ps rows) = length rows"
  by (induction rows) (auto split: option.splits if_splits)

lemma valid_cart_has_lines:
  assumes "valid (validate_cart_for_checkout d uid)"
  shows "summary_items (get_cart_summary d uid) \<noteq> []"
proof -
  from assms have rows: "user_cart d uid \<noteq> []"
    and none: "cart_issues (products d) (user_cart d uid) = []"
    by (auto simp: validate_cart_for_checkout_def Let_def split: if_splits)
  have "length (cart_lines (products d) (user_cart d uid)) = length (user_cart d uid)"
    using none by (rule cart_lines_length)
  with rows have "cart_lines (products d) (user_cart d uid) \<noteq> []" by auto
  then show ?thesis by (simp add: get_cart_summary_def get_cart_items_def Let_def)
qed

lemma pending_after_flush:
  "user_cart (d\<lparr>orders := os\<rparr>) uid = user_cart d uid"
  by (simp add: user_cart_def)

lemma create_order_out_of_stock:
  assumes "valid (validate_cart_for_checkout d uid)"
    and "generate_order_number env \<notin> set (map order_number (orders d))"
    and "order_lines (user_cart d uid) (products d) [] = Inl (OutOfStock name, ps)"
  shows "create_order_from_cart env d uid shipping_info pay =
           (Failure (''Insufficient stock for '' @ name), d)"
  using assms valid_cart_has_lines [OF assms(1)]
  by (simp add: create_order_from_cart_def Let_def session_simps flush_order_def
      pending_after_flush new_order_def)

lemma create_order_succeeds:
  assumes "valid (validate_cart_for_checkout d uid)"
    and "generate_order_number env \<notin> set (map order_number (orders d))"
    and "order_lines (user_cart d uid) (products d) [] = Inr (ps, coll)"
    and "distinct coll"
  shows "create_order_from_cart env d uid shipping_info pay =
           (Success ''Order created successfully''
              (placed_order env d uid shipping_info pay coll),
            d\<lparr>products := ps,
              cart_items := filter (\<lambda>c. cart_user_id c \<noteq> uid) (cart_items d),
              orders := orders d @ [placed_order env d uid shipping_info pay coll]\<rparr>)"
  using assms valid_cart_has_lines [OF assms(1)]
  by (simp add: create_order_from_cart_def Let_def session_simps flush_order_def
      pending_after_flush new_order_def placed_order_def set_products_def
      set_order_products_def delete_user_cart_def get_session_def commit_def map_fresh_id)

lemma create_order_loop_exit:
  assumes "order_lines (user_cart d uid) (products d) [] = Inl x"
  shows "\<not> is_success (fst (create_order_from_cart env d uid shipping_info pay))"
  using assms
  by (auto simp: create_order_from_cart_def Let_def session_simps flush_order_def
      pending_after_flush
      split: sum.splits prod.splits loop_exit.splits if_splits)

lemma order_lines_coll:
  "order_lines rows ps coll = Inr (ps', coll') \<Longrightarrow> coll' = coll @ map cart_product_id rows"
  by (induction rows ps coll rule: order_lines.induct) (auto split: option.splits if_splits)

lemma order_lines_stock:
  "order_lines rows ps coll = Inr (ps', coll') \<Longrightarrow>
   ps' pid =
     map_option
       (\<lambda>p. p\<lparr>stock_quantity := stock_quantity p -
                 sum_list (map cart_quantity (filter (\<lambda>c. cart_product_id c = pid) rows))\<rparr>)
       (ps pid)"
proof (induction rows ps coll rule: order_lines.induct)
  case (1 ps coll)
  then show ?case by (cases "ps pid") auto
next
  case (2 c cs ps coll)
  from "2.prems" obtain p where p: "ps (cart_product_id c) = Some p"
    and ge: "\<not> stock_quantity p < cart_quantity c"
    and rest: "order_lines cs
                 (ps(cart_product_id c \<mapsto>
                       p\<lparr>stock_quantity := stock_quantity p - cart_quantity c\<rparr>))
                 (coll @ [cart_product_id c]) = Inr (ps', coll')"
    by (auto split: option.splits if_splits)
  note ih = "2.IH" [OF p ge rest]
  show ?case
  proof (cases "pid = cart_product_id c")
    case True
    then show ?thesis using ih p by (simp add: algebra_simps)
  next
    case False
    then show ?thesis using ih by simp
  qed
qed

lemma filter_user_product:
  "filter (\<lambda>c. cart_product_id c = pid) (user_cart d uid) = cart_rows d uid pid"
  by (simp add: user_cart_def cart_rows_def conj_commute)

text \<open>
  C1.  \<^verbatim>\<open>create_order_from_cart\<close> is all-or-nothing.  Whenever it does not succeed the
  stored database is the one it started from: no stock, no order row and no cart row
  differs.  In particular this is so whenever the stock re-check inside the loop
  fails on some line (or the loop raises), even though earlier lines have already
  been decremented in the session.  When it succeeds, the stored database differs from
  the old one in exactly three things, committed together: the new order row is
  appended, carrying one product per cart row; every product's stock is lowered by the
  quantity the user's cart held of it; and the user's cart rows are gone.
\<close>

theorem create_order_all_or_nothing:
  "(\<not> is_success (fst (create_order_from_cart env d uid shipping_info pay)) \<longrightarrow>
      snd (create_order_from_cart env d uid shipping_info pay) = d) \<and>
   (\<forall>x. order_lines (user_cart d uid) (products d) [] = Inl x \<longrightarrow>
      \<not> is_success (fst (create_order_from_cart env d uid shipping_info pay)) \<and>
      snd (create_order_from_cart env d uid shipping_info pay) = d) \<and>
   (\<forall>m ord d'. create_order_from_cart env d uid shipping_info pay = (Success m ord, d') \<longrightarrow>
      orders d' = orders d @ [ord] \<and>
      order_products ord = map cart_product_id (user_cart d uid) \<and>
      cart_items d' = filter (\<lambda>c. cart_user_id c \<noteq> uid) (cart_items d) \<and>
      users d' = users d \<and>
      (\<forall>pid. products d' pid =
               map_option
                 (\<lambda>p. p\<lparr>stock_quantity := stock_quantity p - cart_quantity_of d uid pid\<rparr>)
                 (products d pid)))"
proof (intro conjI allI impI)
  assume "\<not> is_success (fst (create_order_from_cart env d uid shipping_info pay))"
  then show "snd (create_order_from_cart env d uid shipping_info pay) = d"
    by (rule create_order_failure_keeps)
next
  fix x
  assume "order_lines (user_cart d uid) (products d) [] = Inl x"
  then show fails: "\<not> is_success (fst (create_order_from_cart env d uid shipping_info pay))"
    by (rule create_order_loop_exit)
  then show "snd (create_order_from_cart env d uid shipping_info pay) = d"
    by (rule create_order_failure_keeps)
next
  fix m ord d' pid
  assume ok: "create_order_from_cart env d uid shipping_info pay = (Success m ord, d')"
  from create_order_success_shape [OF ok] obtain ps coll where
    loop: "order_lines (user_cart d uid) (products d) [] = Inr (ps, coll)"
    and ord: "ord = placed_order env d uid shipping_info pay coll"
    and d': "d' = d\<lparr>products := ps,
                     cart_items := filter (\<lambda>c. cart_user_id c \<noteq> uid) (cart_items d),
                     orders := orders d @ [ord]\<rparr>"
    by blast
  show "orders d' = orders d @ [ord]" by (simp add: d')
  show "order_products ord = map cart_product_id (user_cart d uid)"
    using order_lines_coll [OF loop] by (simp add: ord placed_order_def)
  show "cart_items d' = filter (\<lambda>c. cart_user_id c \<noteq> uid) (cart_items d)" by (simp add: d')
  show "users d' = users d" by (simp add: d')
  show "products d' pid =
          map_option
            (\<lambda>p. p\<lparr>stock_quantity := stock_quantity p - cart_quantity_of d uid pid\<rparr>)
            (products d pid)"
    using order_lines_stock [OF loop, of pid]
    by (simp add: d' cart_quantity_of_def filter_user_product)
qed

lemma validate_shop_double: "valid (validate_cart_for_checkout shop_double 1)"
  by (simp add: validate_cart_for_checkout_def shop_double_def shop_def f91w_def
      user_cart_def Let_def)

lemma validate_shop_cart3: "valid (validate_cart_for_checkout shop_cart3 1)"
  by (simp add: validate_cart_for_checkout_def shop_cart3_def shop_def f91w_def
      user_cart_def Let_def)

lemma order_lines_shop_double:
  "order_lines (user_cart shop_double 1) (products shop_double) [] =
     Inl (OutOfStock ''F-91W'', [1 \<mapsto> f91w\<lparr>stock_quantity := 2\<rparr>])"
  by (simp add: shop_double_def shop_def f91w_def user_cart_def)

lemma order_lines_shop_cart3:
  "order_lines (user_cart shop_cart3 1) (products shop_cart3) [] =
     Inr ([1 \<mapsto> f91w\<lparr>stock_quantity := 2\<rparr>], [1])"
  by (simp add: shop_cart3_def shop_def f91w_def user_cart_def)

lemma fresh_number_shop:
  "generate_order_number noon \<notin> set (map order_number (orders shop_double))"
  "generate_order_number noon \<notin> set (map order_number (orders shop_cart3))"
  by (simp_all add: shop_double_def shop_cart3_def shop_def)

lemma checkout_shop_double:
  "create_order_from_cart noon shop_double 1 Map.empty ''stripe'' =
     (Failure ''Insufficient stock for F-91W'', shop_double)"
  using create_order_out_of_stock
    [OF validate_shop_double fresh_number_shop(1) order_lines_shop_double]
  by simp

lemma checkout_shop_cart3:
  "create_order_from_cart noon shop_cart3 1 Map.empty ''stripe'' =
     (Success ''Order created successfully''
        (placed_order noon shop_cart3 1 Map.empty ''stripe'' [1]),
      shop_cart3\<lparr>products := [1 \<mapsto> f91w\<lparr>stock_quantity := 2\<rparr>],
        cart_items := filter (\<lambda>c. cart_user_id c \<noteq> 1) (cart_items shop_cart3),
        orders := orders shop_cart3 @ [placed_order noon shop_cart3 1 Map.empty ''stripe'' [1]]\<rparr>)"
  by (rule create_order_succeeds
    [OF validate_shop_cart3 fresh_number_shop(2) order_lines_shop_cart3]) simp

text \<open>
  With two cart rows of three and a stock of five, both rows pass the validation, the
  loop lowers the stock to two for the first row and fails on the second; the call
  returns \<^verbatim>\<open>Insufficient stock for F-91W\<close> and the database is as before.  With one row
  of three the call succeeds: the cart is empty, one order holds product 1, and two
  are left in stock.
\<close>

theorem create_order_all_or_nothing_witness:
  "order_lines (user_cart shop_double 1) (products shop_double) [] =
     Inl (OutOfStock ''F-91W'', [1 \<mapsto> f91w\<lparr>stock_quantity := 2\<rparr>]) \<and>
   fst (create_order_from_cart noon shop_double 1 Map.empty ''stripe'') =
     Failure ''Insufficient stock for F-91W'' \<and>
   snd (create_order_from_cart noon shop_double 1 Map.empty ''stripe'') = shop_double \<and>
   is_success (fst (create_order_from_cart noon shop_cart3 1 Map.empty ''stripe'')) \<and>
   cart_items (snd (create_order_from_cart noon shop_cart3 1 Map.empty ''stripe'')) = [] \<and>
   map order_products
     (orders (snd (create_order_from_cart noon shop_cart3 1 Map.empty ''stripe''))) = [[1]] \<and>
   map_option stock_quantity
     (products (snd (create_order_from_cart noon shop_cart3 1 Map.empty ''stripe'')) 1) = Some 2"
proof -
  let ?fail = "create_order_from_cart noon shop_double 1 Map.empty ''stripe''"
  let ?ok = "create_order_from_cart noon shop_cart3 1 Map.empty ''stripe''"
  note thm1 = create_order_all_or_nothing [of noon shop_double 1 Map.empty "''stripe''"]
  note thm2 = create_order_all_or_nothing [of noon shop_cart3 1 Map.empty "''stripe''"]
  have msg: "fst ?fail = Failure ''Insufficient stock for F-91W''"
    by (simp add: checkout_shop_double)
  have kept: "snd ?fail = shop_double"
    using thm1 [THEN conjunct2, THEN conjunct1] order_lines_shop_double by blast
  have ok: "?ok = (fst ?ok, snd ?ok)" by simp
  have succ: "fst ?ok = Success ''Order created successfully''
                (placed_order noon shop_cart3 1 Map.empty ''stripe'' [1])"
    by (simp add: checkout_shop_cart3)
  have eq: "?ok = (Success ''Order created successfully''
                (placed_order noon shop_cart3 1 Map.empty ''stripe'' [1]), snd ?ok)"
    using ok succ by simp
  note after = thm2 [THEN conjunct2, THEN conjunct2, rule_format, OF eq]
  have s1: "is_success (fst ?ok)" by (simp add: succ)
  have s2: "cart_items (snd ?ok) = []"
    using after by (simp add: shop_cart3_def)
  have s3: "map order_products (orders (snd ?ok)) = [[1]]"
    using after by (simp add: shop_cart3_def shop_def user_cart_def)
  have s4: "map_option stock_quantity (products (snd ?ok) 1) = Some 2"
    using after
    by (simp add: shop_cart3_def shop_def f91w_def cart_quantity_of_def cart_rows_def)
  show ?thesis
    by (intro conjI) (rule order_lines_shop_double msg kept s1 s2 s3 s4)+
qed

section \<open>The stock is never negative\<close>

lemma add_to_cart_products:
  "products (snd (add_to_cart d uid pid q)) = products d"
  by (simp add: add_to_cart_def get_session_def commit_def close_def set_cart_quantity_def
      add_cart_item_def Let_def split: option.splits)

lemma order_lines_nonneg_at:
  "order_lines rows ps coll = Inr (ps', coll') \<Longrightarrow>
   (\<forall>p. ps pid = Some p \<longrightarrow> 0 \<le> stock_quantity p) \<Longrightarrow>
   (\<forall>p. ps' pid = Some p \<longrightarrow> 0 \<le> stock_quantity p)"
proof (induction rows ps coll rule: order_lines.induct)
  case (1 ps coll)
  then show ?case by simp
next
  case (2 c cs ps coll)
  from "2.prems"(1) obtain p where p: "ps (cart_product_id c) = Some p"
    and ge: "\<not> stock_quantity p < cart_quantity c"
    and rest: "order_lines cs
                 (ps(cart_product_id c \<mapsto>
                       p\<lparr>stock_quantity := stock_quantity p - cart_quantity c\<rparr>))
                 (coll @ [cart_product_id c]) = Inr (ps', coll')"
    by (auto split: option.splits if_splits)
  have "\<forall>q. (ps(cart_product_id c \<mapsto>
                    p\<lparr>stock_quantity := stock_quantity p - cart_quantity c\<rparr>)) pid = Some q
             \<longrightarrow> 0 \<le> stock_quantity q"
    using "2.prems"(2) ge by auto
  then show ?case by (rule "2.IH" [OF p ge rest])
qed

lemma restore_stock_nonneg_at:
  "(\<forall>p. ps pid = Some p \<longrightarrow> 0 \<le> stock_quantity p) \<Longrightarrow>
   (\<forall>p. restore_stock pids ps pid = Some p \<longrightarrow> 0 \<le> stock_quantity p)"
proof (induction pids arbitrary: ps)
  case Nil
  then show ?case by simp
next
  case (Cons x xs)
  let ?ps = "case ps x of None \<Rightarrow> ps
             | Some p \<Rightarrow> ps(x \<mapsto> p\<lparr>stock_quantity := stock_quantity p + 1\<rparr>)"
  have "\<forall>p. ?ps pid = Some p \<longrightarrow> 0 \<le> stock_quantity p"
  proof (cases "ps x")
    case None
    then show ?thesis using Cons.prems by simp
  next
    case (Some a)
    show ?thesis
    proof (cases "pid = x")
      case True
      with Some Cons.prems have "0 \<le> stock_quantity a" by simp
      then show ?thesis using Some True by simp
    next
      case False
      then show ?thesis using Some Cons.prems by simp
    qed
  qed
  then have "\<forall>p. restore_stock xs ?ps pid = Some p \<longrightarrow> 0 \<le> stock_quantity p"
    by (rule Cons.IH)
  then show ?case by simp
qed

lemma add_to_cart_keeps_stock:
  "stock_never_negative d k \<Longrightarrow> stock_never_negative (snd (add_to_cart d uid pid q)) k"
  by (simp add: stock_never_negative_def add_to_cart_products)

lemma create_order_keeps_stock:
  assumes inv: "stock_never_negative d k"
  shows "stock_never_negative (snd (create_order_from_cart env d uid shipping_info pay)) k"
proof (cases "is_success (fst (create_order_from_cart env d uid shipping_info pay))")
  case False
  then show ?thesis using inv by (simp add: create_order_failure_keeps)
next
  case True
  then obtain m ord where
    "fst (create_order_from_cart env d uid shipping_info pay) = Success m ord"
    by (cases "fst (create_order_from_cart env d uid shipping_info pay)") auto
  then have eq: "create_order_from_cart env d uid shipping_info pay =
                   (Success m ord, snd (create_order_from_cart env d uid shipping_info pay))"
    by (simp add: prod_eq_iff)
  from create_order_success_shape [OF eq] obtain ps coll where
    loop: "order_lines (user_cart d uid) (products d) [] = Inr (ps, coll)"
    and after: "snd (create_order_from_cart env d uid shipping_info pay) =
                  d\<lparr>products := ps,
                    cart_items := filter (\<lambda>c. cart_user_id c \<noteq> uid) (cart_items d),
                    orders := orders d @ [ord]\<rparr>"
    by blast
  have d': "products (snd (create_order_from_cart env d uid shipping_info pay)) = ps"
    by (simp add: after)
  from inv have "\<forall>p. products d k = Some p \<longrightarrow> 0 \<le> stock_quantity p"
    by (simp add: stock_never_negative_def)
  with loop have "\<forall>p. ps k = Some p \<longrightarrow> 0 \<le> stock_quantity p"
    by (rule order_lines_nonneg_at)
  then show ?thesis by (simp add: stock_never_negative_def d')
qed

lemma cancel_order_keeps_stock:
  assumes inv: "stock_never_negative d k"
  shows "stock_never_negative (snd (cancel_order env d oid user_opt)) k"
proof -
  from inv have base: "\<forall>p. products d k = Some p \<longrightarrow> 0 \<le> stock_quantity p"
    by (simp add: stock_never_negative_def)
  have "products (snd (cancel_order env d oid user_opt)) = products d \<or>
        (\<exists>pids. products (snd (cancel_order env d oid user_opt)) =
                  restore_stock pids (products d))"
    by (auto simp: cancel_order_def get_session_def close_def commit_def set_products_def
        mark_cancelled_def Let_def split: option.splits)
  then show ?thesis
    using base restore_stock_nonneg_at [of "products d" k, OF base]
    by (auto simp: stock_never_negative_def)
qed

lemma update_stock_keeps_stock:
  "stock_never_negative d k \<Longrightarrow> stock_never_negative (snd (update_stock d pid change)) k"
  by (auto simp: stock_never_negative_def update_stock_def get_session_def close_def
      commit_def set_products_def Let_def split: option.splits if_splits)

lemma apply_operation_keeps_stock:
  "stock_never_negative d k \<Longrightarrow> stock_never_negative (apply_operation d op) k"
  by (cases op)
    (simp_all add: add_to_cart_keeps_stock create_order_keeps_stock cancel_order_keeps_stock
      update_stock_keeps_stock)

text \<open>
  C2.  A product whose stock is not negative keeps a stock that is not negative through
  any sequence of \<^verbatim>\<open>add_to_cart\<close>, \<^verbatim>\<open>create_order_from_cart\<close>, \<^verbatim>\<open>cancel_order\<close> and
  \<^verbatim>\<open>update_stock\<close> calls, run one after another with any arguments.
\<close>

theorem stock_never_negative_run:
  "stock_never_negative d pid \<Longrightarrow> stock_never_negative (run d ops) pid"
  unfolding run_def
  by (induction ops arbitrary: d) (simp_all add: apply_operation_keeps_stock)

text \<open>A run on the example shop: add three, check out, cancel, add five, check out.\<close>

theorem stock_never_negative_run_witness:
  "stock_never_negative shop 1 \<and>
   stock_never_negative
     (run shop [Add 1 1 3, Checkout noon 1 Map.empty ''stripe'', Cancel noon 1 None,
                Add 1 1 5, Checkout noon 1 Map.empty ''stripe'']) 1"
proof -
  have start: "stock_never_negative shop 1"
    by (simp add: stock_never_negative_def shop_def f91w_def)
  have "stock_never_negative
     (run shop [Add 1 1 3, Checkout noon 1 Map.empty ''stripe'', Cancel noon 1 None,
                Add 1 1 5, Checkout noon 1 Map.empty ''stripe'']) 1"
    using start by (rule stock_never_negative_run)
  with start show ?thesis by (rule conjI)
qed

section \<open>The order number and the state after checkout\<close>














section \<open>The cart summary\<close>










end
